theory Spec2Isabelle
  imports Main "HOL-Library.Word"
begin

section \<open>Budget action resource: composite resource identifier\<close>

text \<open>
  Go strings are byte sequences; they are modelled as \<open>string\<close> (a list of 8-bit
  characters), so \<open>length\<close> is Go's \<open>len\<close>.
\<close>

text \<open>\<open>strings.Join\<close> with a one-byte separator.\<close>

fun Join :: "string list \<Rightarrow> char \<Rightarrow> string" where
  "Join [] sep = []"
| "Join [p] sep = p"
| "Join (p # q # ps) sep = p @ sep # Join (q # ps) sep"

text \<open>
  \<open>strings.Split\<close> with a one-byte separator: the pieces between the separators, a
  single empty piece for the empty string.
\<close>

fun Split :: "string \<Rightarrow> char \<Rightarrow> string list" where
  "Split [] sep = [Nil]"
| "Split (c # cs) sep =
     (if c = sep then [] # Split cs sep
      else (case Split cs sep of p # ps \<Rightarrow> (c # p) # ps | [] \<Rightarrow> [c] # []))"

text \<open>
  Errors. \<open>AwsError code message\<close> is the vendor SDK's \<open>awserr.Error\<close>,
  \<open>NotFoundError\<close> the plugin SDK's \<open>resource.NotFoundError\<close>, \<open>ErrorString\<close> an
  error made of a message only, and \<open>Errorf context e\<close> the result of
  \<open>fmt.Errorf("context: %w", e)\<close>, which wraps \<open>e\<close>.
\<close>

datatype error =
    AwsError string string
  | NotFoundError
  | ErrorString string
  | Errorf string error

text \<open>
  Modelled from the spec: \<open>tfbudgets.BudgetActionCreateResourceID\<close> and
  \<open>tfbudgets.BudgetActionParseResourceID\<close> live in the package
  \<open>aws/internal/service/budgets\<close>, which is not among the source files. The spec gives
  the identifier as \<open>accountID/actionID/budgetName\<close>; the callers show that parsing
  returns the three components or an error.
\<close>

definition budgetActionResourceIDSeparator :: char where
  "budgetActionResourceIDSeparator = CHR ''/''"

definition BudgetActionCreateResourceID :: "string \<Rightarrow> string \<Rightarrow> string \<Rightarrow> string" where
  "BudgetActionCreateResourceID accountID actionID budgetName =
     Join [accountID, actionID, budgetName] budgetActionResourceIDSeparator"

definition BudgetActionParseResourceID :: "string \<Rightarrow> error + (string \<times> string \<times> string)" where
  "BudgetActionParseResourceID ident =
     (case Split ident budgetActionResourceIDSeparator of
        [accountID, actionID, budgetName] \<Rightarrow> Inr (accountID, actionID, budgetName)
      | _ \<Rightarrow> Inl (ErrorString (''unexpected format for ID ('' @ ident @ '')'')))"


section \<open>Configuration values and vendor structures\<close>

text \<open>
  A \<open>float64\<close> is carried as its 64-bit pattern: the resource only copies it.
\<close>

type_synonym float64 = "64 word"

text \<open>
  The plugin SDK hands configuration over as \<open>interface{}\<close> values: \<open>VNil\<close> is the
  nil interface, \<open>VList\<close> a \<open>[]interface{}\<close>, \<open>VSet\<close> a \<open>*schema.Set\<close> (by the
  list its \<open>List()\<close> returns) and \<open>VMap\<close> a \<open>map[string]interface{}\<close>.
\<close>

datatype val =
    VNil
  | VString string
  | VFloat float64
  | VList "val list"
  | VSet "val list"
  | VMap "string \<Rightarrow> val option"

text \<open>A type assertion without the comma-ok form panics when the type is another one.\<close>

datatype panic = InterfaceConversion

text \<open>
  The comma-ok assertions \<open>v, ok := m[key].(T)\<close>: the argument is the map's entry
  (\<open>None\<close> for a missing key, which Go reads as the nil interface), the result is
  \<open>Some v\<close> when \<open>ok\<close> holds.
\<close>

fun stringOk :: "val option \<Rightarrow> string option" where
  "stringOk (Some (VString v)) = Some v"
| "stringOk _ = None"

fun float64Ok :: "val option \<Rightarrow> float64 option" where
  "float64Ok (Some (VFloat v)) = Some v"
| "float64Ok _ = None"

fun listOk :: "val option \<Rightarrow> val list option" where
  "listOk (Some (VList v)) = Some v"
| "listOk _ = None"

fun setOk :: "val option \<Rightarrow> val list option" where
  "setOk (Some (VSet v)) = Some v"
| "setOk _ = None"

text \<open>Sequencing of computations that may panic.\<close>

definition bind_panic :: "panic + 'a \<Rightarrow> ('a \<Rightarrow> panic + 'b) \<Rightarrow> panic + 'b" where
  "bind_panic x f = (case x of Inl p \<Rightarrow> Inl p | Inr v \<Rightarrow> f v)"

text \<open>
  The vendor SDK's structures. A pointer field is an \<open>option\<close> (\<open>None\<close> is nil); a
  \<open>[]*string\<close> field is a list of strings, the nil slice being the empty list (the
  source only ever asks such a slice for its length).
\<close>

definition aws_String :: "string \<Rightarrow> string option" where
  "aws_String v = Some v"

definition aws_StringValue :: "string option \<Rightarrow> string" where
  "aws_StringValue p = (case p of None \<Rightarrow> [] | Some v \<Rightarrow> v)"

definition aws_Float64 :: "float64 \<Rightarrow> float64 option" where
  "aws_Float64 v = Some v"

definition aws_Float64Value :: "float64 option \<Rightarrow> float64" where
  "aws_Float64Value p = (case p of None \<Rightarrow> 0 | Some v \<Rightarrow> v)"

record ActionThreshold =
  ActionThresholdType :: "string option"
  ActionThresholdValue :: "float64 option"

record Subscriber =
  Address :: "string option"
  SubscriptionType :: "string option"

record ScpActionDefinition =
  PolicyId :: "string option"
  TargetIds :: "string list"

record SsmActionDefinition =
  ActionSubType :: "string option"
  InstanceIds :: "string list"
  Region :: "string option"

record IamActionDefinition =
  PolicyArn :: "string option"
  Groups :: "string list"
  Roles :: "string list"
  Users :: "string list"

record Definition =
  IamActionDefinition :: "IamActionDefinition option"
  ScpActionDefinition :: "ScpActionDefinition option"
  SsmActionDefinition :: "SsmActionDefinition option"

section \<open>Expanding configuration into vendor structures\<close>

text \<open>
  \<open>expandStringSet\<close> and \<open>flattenStringSet\<close> are helpers of the repository that are
  not among the source files: the functions that call them take them as the
  parameters \<open>ess\<close> and \<open>fss\<close>.
\<close>

fun expandAwsBudgetsBudgetActionActionThreshold :: "val list \<Rightarrow> panic + ActionThreshold option" where
  "expandAwsBudgetsBudgetActionActionThreshold [] = Inr None"
| "expandAwsBudgetsBudgetActionActionThreshold (VNil # _) = Inr None"
| "expandAwsBudgetsBudgetActionActionThreshold (VMap m # _) =
     (let config = \<lparr>ActionThresholdType = None, ActionThresholdValue = None\<rparr>;
          config = (case stringOk (m ''action_threshold_type'') of
                      Some v \<Rightarrow> if v \<noteq> [] then config\<lparr>ActionThresholdType := aws_String v\<rparr> else config
                    | None \<Rightarrow> config);
          config = (case float64Ok (m ''action_threshold_value'') of
                      Some v \<Rightarrow> config\<lparr>ActionThresholdValue := aws_Float64 v\<rparr>
                    | None \<Rightarrow> config)
      in Inr (Some config))"
| "expandAwsBudgetsBudgetActionActionThreshold (_ # _) = Inl InterfaceConversion"

text \<open>The loop of \<open>expandAwsBudgetsBudgetActionSubscriber\<close> over \<open>l.List()\<close>.\<close>

fun expandAwsBudgetsBudgetActionSubscriber_items ::
  "val list \<Rightarrow> Subscriber list \<Rightarrow> panic + Subscriber list" where
  "expandAwsBudgetsBudgetActionSubscriber_items [] items = Inr items"
| "expandAwsBudgetsBudgetActionSubscriber_items (VMap raw # ms) items =
     (let config = \<lparr>Address = None, SubscriptionType = None\<rparr>;
          config = (case stringOk (raw ''address'') of
                      Some v \<Rightarrow> if v \<noteq> [] then config\<lparr>Address := aws_String v\<rparr> else config
                    | None \<Rightarrow> config);
          config = (case stringOk (raw ''subscription_type'') of
                      Some v \<Rightarrow> config\<lparr>SubscriptionType := aws_String v\<rparr>
                    | None \<Rightarrow> config)
      in expandAwsBudgetsBudgetActionSubscriber_items ms (items @ [config]))"
| "expandAwsBudgetsBudgetActionSubscriber_items (_ # ms) items = Inl InterfaceConversion"

definition expandAwsBudgetsBudgetActionSubscriber :: "val list \<Rightarrow> panic + Subscriber list" where
  "expandAwsBudgetsBudgetActionSubscriber l =
     (if length l = 0 then Inr []
      else expandAwsBudgetsBudgetActionSubscriber_items l [])"

fun expandAwsBudgetsBudgetActionActionScpActionDefinition ::
  "(val list \<Rightarrow> string list) \<Rightarrow> val list \<Rightarrow> panic + ScpActionDefinition option" where
  "expandAwsBudgetsBudgetActionActionScpActionDefinition ess [] = Inr None"
| "expandAwsBudgetsBudgetActionActionScpActionDefinition ess (VNil # _) = Inr None"
| "expandAwsBudgetsBudgetActionActionScpActionDefinition ess (VMap m # _) =
     (let config = \<lparr>PolicyId = None, TargetIds = []\<rparr>;
          config = (case stringOk (m ''policy_id'') of
                      Some v \<Rightarrow> if v \<noteq> [] then config\<lparr>PolicyId := aws_String v\<rparr> else config
                    | None \<Rightarrow> config);
          config = (case setOk (m ''target_ids'') of
                      Some v \<Rightarrow> if length v > 0 then config\<lparr>TargetIds := ess v\<rparr> else config
                    | None \<Rightarrow> config)
      in Inr (Some config))"
| "expandAwsBudgetsBudgetActionActionScpActionDefinition ess (_ # _) = Inl InterfaceConversion"

fun expandAwsBudgetsBudgetActionActionSsmActionDefinition ::
  "(val list \<Rightarrow> string list) \<Rightarrow> val list \<Rightarrow> panic + SsmActionDefinition option" where
  "expandAwsBudgetsBudgetActionActionSsmActionDefinition ess [] = Inr None"
| "expandAwsBudgetsBudgetActionActionSsmActionDefinition ess (VNil # _) = Inr None"
| "expandAwsBudgetsBudgetActionActionSsmActionDefinition ess (VMap m # _) =
     (let config = \<lparr>ActionSubType = None, InstanceIds = [], Region = None\<rparr>;
          config = (case stringOk (m ''action_sub_type'') of
                      Some v \<Rightarrow> if v \<noteq> [] then config\<lparr>ActionSubType := aws_String v\<rparr> else config
                    | None \<Rightarrow> config);
          config = (case stringOk (m ''region'') of
                      Some v \<Rightarrow> if v \<noteq> [] then config\<lparr>Region := aws_String v\<rparr> else config
                    | None \<Rightarrow> config);
          config = (case setOk (m ''instance_ids'') of
                      Some v \<Rightarrow> if length v > 0 then config\<lparr>InstanceIds := ess v\<rparr> else config
                    | None \<Rightarrow> config)
      in Inr (Some config))"
| "expandAwsBudgetsBudgetActionActionSsmActionDefinition ess (_ # _) = Inl InterfaceConversion"

fun expandAwsBudgetsBudgetActionActionIamActionDefinition ::
  "(val list \<Rightarrow> string list) \<Rightarrow> val list \<Rightarrow> panic + IamActionDefinition option" where
  "expandAwsBudgetsBudgetActionActionIamActionDefinition ess [] = Inr None"
| "expandAwsBudgetsBudgetActionActionIamActionDefinition ess (VNil # _) = Inr None"
| "expandAwsBudgetsBudgetActionActionIamActionDefinition ess (VMap m # _) =
     (let config = \<lparr>PolicyArn = None, Groups = [], Roles = [], Users = []\<rparr>;
          config = (case stringOk (m ''policy_arn'') of
                      Some v \<Rightarrow> if v \<noteq> [] then config\<lparr>PolicyArn := aws_String v\<rparr> else config
                    | None \<Rightarrow> config);
          config = (case setOk (m ''groups'') of
                      Some v \<Rightarrow> if length v > 0 then config\<lparr>Groups := ess v\<rparr> else config
                    | None \<Rightarrow> config);
          config = (case setOk (m ''roles'') of
                      Some v \<Rightarrow> if length v > 0 then config\<lparr>Roles := ess v\<rparr> else config
                    | None \<Rightarrow> config);
          config = (case setOk (m ''users'') of
                      Some v \<Rightarrow> if length v > 0 then config\<lparr>Users := ess v\<rparr> else config
                    | None \<Rightarrow> config)
      in Inr (Some config))"
| "expandAwsBudgetsBudgetActionActionIamActionDefinition ess (_ # _) = Inl InterfaceConversion"

fun expandAwsBudgetsBudgetActionActionDefinition ::
  "(val list \<Rightarrow> string list) \<Rightarrow> val list \<Rightarrow> panic + Definition option" where
  "expandAwsBudgetsBudgetActionActionDefinition ess [] = Inr None"
| "expandAwsBudgetsBudgetActionActionDefinition ess (VNil # _) = Inr None"
| "expandAwsBudgetsBudgetActionActionDefinition ess (VMap m # _) =
     (let config = \<lparr>IamActionDefinition = None, ScpActionDefinition = None,
                     SsmActionDefinition = None\<rparr>
      in bind_panic
           (case listOk (m ''ssm_action_definition'') of
              Some v \<Rightarrow>
                if length v > 0
                then bind_panic (expandAwsBudgetsBudgetActionActionSsmActionDefinition ess v)
                       (\<lambda>x. Inr (config\<lparr>SsmActionDefinition := x\<rparr>))
                else Inr config
            | None \<Rightarrow> Inr config)
           (\<lambda>config. bind_panic
              (case listOk (m ''scp_action_definition'') of
                 Some v \<Rightarrow>
                   if length v > 0
                   then bind_panic (expandAwsBudgetsBudgetActionActionScpActionDefinition ess v)
                          (\<lambda>x. Inr (config\<lparr>ScpActionDefinition := x\<rparr>))
                   else Inr config
               | None \<Rightarrow> Inr config)
              (\<lambda>config. bind_panic
                 (case listOk (m ''iam_action_definition'') of
                    Some v \<Rightarrow>
                      if length v > 0
                      then bind_panic (expandAwsBudgetsBudgetActionActionIamActionDefinition ess v)
                             (\<lambda>x. Inr (config\<lparr>IamActionDefinition := x\<rparr>))
                      else Inr config
                  | None \<Rightarrow> Inr config)
                 (\<lambda>config. Inr (Some config)))))"
| "expandAwsBudgetsBudgetActionActionDefinition ess (_ # _) = Inl InterfaceConversion"

section \<open>Flattening vendor structures into configuration\<close>

definition flattenAwsBudgetsBudgetActionSubscriber :: "Subscriber list \<Rightarrow> (string \<rightharpoonup> val) list" where
  "flattenAwsBudgetsBudgetActionSubscriber configured =
     map (\<lambda>raw. [''address'' \<mapsto> VString (aws_StringValue (Address raw)),
                 ''subscription_type'' \<mapsto> VString (aws_StringValue (SubscriptionType raw))])
       configured"

definition flattenAwsBudgetsBudgetActionActionThreshold ::
  "ActionThreshold option \<Rightarrow> (string \<rightharpoonup> val) list" where
  "flattenAwsBudgetsBudgetActionActionThreshold lt =
     (case lt of
        None \<Rightarrow> []
      | Some t \<Rightarrow>
          [ [''action_threshold_type'' \<mapsto> VString (aws_StringValue (ActionThresholdType t)),
            ''action_threshold_value'' \<mapsto> VFloat (aws_Float64Value (ActionThresholdValue t))]])"

definition flattenAwsBudgetsBudgetActionIamActionDefinition ::
  "(string list \<Rightarrow> val) \<Rightarrow> IamActionDefinition option \<Rightarrow> (string \<rightharpoonup> val) list" where
  "flattenAwsBudgetsBudgetActionIamActionDefinition fss lt =
     (case lt of
        None \<Rightarrow> []
      | Some t \<Rightarrow>
          (let attrs = [''policy_arn'' \<mapsto> VString (aws_StringValue (PolicyArn t))];
               attrs = (if length (Users t) > 0 then attrs(''users'' \<mapsto> fss (Users t)) else attrs);
               attrs = (if length (Roles t) > 0 then attrs(''roles'' \<mapsto> fss (Roles t)) else attrs);
               attrs = (if length (Groups t) > 0 then attrs(''groups'' \<mapsto> fss (Groups t)) else attrs)
           in [attrs]))"

definition flattenAwsBudgetsBudgetActionScpActionDefinition ::
  "(string list \<Rightarrow> val) \<Rightarrow> ScpActionDefinition option \<Rightarrow> (string \<rightharpoonup> val) list" where
  "flattenAwsBudgetsBudgetActionScpActionDefinition fss lt =
     (case lt of
        None \<Rightarrow> []
      | Some t \<Rightarrow>
          (let attrs = [''policy_id'' \<mapsto> VString (aws_StringValue (PolicyId t))];
               attrs = (if length (TargetIds t) > 0
                        then attrs(''target_ids'' \<mapsto> fss (TargetIds t)) else attrs)
           in [attrs]))"

definition flattenAwsBudgetsBudgetActionSsmActionDefinition ::
  "(string list \<Rightarrow> val) \<Rightarrow> SsmActionDefinition option \<Rightarrow> (string \<rightharpoonup> val) list" where
  "flattenAwsBudgetsBudgetActionSsmActionDefinition fss lt =
     (case lt of
        None \<Rightarrow> []
      | Some t \<Rightarrow>
          [ [''action_sub_type'' \<mapsto> VString (aws_StringValue (ActionSubType t)),
            ''instance_ids'' \<mapsto> fss (InstanceIds t),
            ''region'' \<mapsto> VString (aws_StringValue (Region t))]])"

text \<open>A \<open>[]map[string]interface{}\<close> stored as an attribute value.\<close>

definition list_of_maps :: "(string \<rightharpoonup> val) list \<Rightarrow> val" where
  "list_of_maps ms = VList (map VMap ms)"

definition flattenAwsBudgetsBudgetActionDefinition ::
  "(string list \<Rightarrow> val) \<Rightarrow> Definition option \<Rightarrow> (string \<rightharpoonup> val) list" where
  "flattenAwsBudgetsBudgetActionDefinition fss lt =
     (case lt of
        None \<Rightarrow> []
      | Some t \<Rightarrow>
          (let attrs = Map.empty;
               attrs = (if SsmActionDefinition t \<noteq> None
                        then attrs(''ssm_action_definition'' \<mapsto> list_of_maps
                               (flattenAwsBudgetsBudgetActionSsmActionDefinition fss (SsmActionDefinition t)))
                        else attrs);
               attrs = (if IamActionDefinition t \<noteq> None
                        then attrs(''iam_action_definition'' \<mapsto> list_of_maps
                               (flattenAwsBudgetsBudgetActionIamActionDefinition fss (IamActionDefinition t)))
                        else attrs);
               attrs = (if ScpActionDefinition t \<noteq> None
                        then attrs(''scp_action_definition'' \<mapsto> list_of_maps
                               (flattenAwsBudgetsBudgetActionScpActionDefinition fss (ScpActionDefinition t)))
                        else attrs)
           in [attrs]))"

section \<open>The resource data, the client and the vendor\<close>

text \<open>
  \<open>errors.As\<close> walks the chain of wrapped errors; a Go \<open>error\<close> value may be nil
  (\<open>None\<close>). \<open>tfawserr.ErrCodeEquals\<close>, of the SDK base library, holds when the chain
  has a vendor error with the given code.
\<close>

fun has_code :: "error \<Rightarrow> string \<Rightarrow> bool" where
  "has_code (AwsError c msg) code = (c = code)"
| "has_code (Errorf ctx e) code = has_code e code"
| "has_code _ code = False"

fun is_not_found :: "error \<Rightarrow> bool" where
  "is_not_found NotFoundError = True"
| "is_not_found (Errorf ctx e) = is_not_found e"
| "is_not_found _ = False"

definition ErrCodeEquals :: "error option \<Rightarrow> string \<Rightarrow> bool" where
  "ErrCodeEquals err code = (case err of None \<Rightarrow> False | Some e \<Rightarrow> has_code e code)"

text \<open>
  Modelled from the spec: \<open>tfresource.NotFound\<close> is not among the source files. It is
  the test for the spec's "resource-not-found": the chain of the error has the plugin
  SDK's not-found error.
\<close>

definition NotFound :: "error option \<Rightarrow> bool" where
  "NotFound err = (case err of None \<Rightarrow> False | Some e \<Rightarrow> is_not_found e)"

definition ErrCodeNotFoundException :: string where
  "ErrCodeNotFoundException = ''NotFoundException''"

definition ErrCodeAccessDeniedException :: string where
  "ErrCodeAccessDeniedException = ''AccessDeniedException''"

text \<open>
  \<open>*schema.ResourceData\<close>, by what the resource asks of it: the identifier, whether the
  resource is new, the value of each attribute (\<open>Get\<close>), whether an attribute changed
  (\<open>HasChange\<close>), and the error, if any, with which the SDK refuses to \<open>Set\<close> an
  attribute to a value.
\<close>

record ResourceData =
  d_Id :: string
  d_IsNewResource :: bool
  d_Get :: "string \<Rightarrow> val"
  d_HasChange :: "string \<Rightarrow> bool"
  d_SetError :: "string \<Rightarrow> val \<Rightarrow> error option"

definition SetId :: "string \<Rightarrow> ResourceData \<Rightarrow> ResourceData" where
  "SetId v d = d\<lparr>d_Id := v\<rparr>"

definition Set_attr :: "ResourceData \<Rightarrow> string \<Rightarrow> val \<Rightarrow> error option \<times> ResourceData" where
  "Set_attr d key v =
     (case d_SetError d key v of
        Some err \<Rightarrow> (Some err, d)
      | None \<Rightarrow> (None, d\<lparr>d_Get := (d_Get d)(key := v)\<rparr>))"

text \<open>The assertions \<open>d.Get(key).(string)\<close>, \<open>.([]interface{})\<close> and \<open>.(*schema.Set)\<close>.\<close>

definition Get_string :: "ResourceData \<Rightarrow> string \<Rightarrow> panic + string" where
  "Get_string d key = (case d_Get d key of VString v \<Rightarrow> Inr v | _ \<Rightarrow> Inl InterfaceConversion)"

definition Get_list :: "ResourceData \<Rightarrow> string \<Rightarrow> panic + val list" where
  "Get_list d key = (case d_Get d key of VList v \<Rightarrow> Inr v | _ \<Rightarrow> Inl InterfaceConversion)"

definition Get_set :: "ResourceData \<Rightarrow> string \<Rightarrow> panic + val list" where
  "Get_set d key = (case d_Get d key of VSet v \<Rightarrow> Inr v | _ \<Rightarrow> Inl InterfaceConversion)"

text \<open>A \<open>*string\<close> given to \<open>d.Set\<close>.\<close>

definition string_ptr_val :: "string option \<Rightarrow> val" where
  "string_ptr_val p = (case p of None \<Rightarrow> VNil | Some v \<Rightarrow> VString v)"

record CreateBudgetActionInput =
  cr_AccountId :: "string option"
  cr_ActionThreshold :: "ActionThreshold option"
  cr_ActionType :: "string option"
  cr_ApprovalModel :: "string option"
  cr_BudgetName :: "string option"
  cr_Definition :: "Definition option"
  cr_ExecutionRoleArn :: "string option"
  cr_NotificationType :: "string option"
  cr_Subscribers :: "Subscriber list option"

record CreateBudgetActionOutput =
  out_AccountId :: "string option"
  out_ActionId :: "string option"
  out_BudgetName :: "string option"

record UpdateBudgetActionInput =
  up_AccountId :: "string option"
  up_ActionId :: "string option"
  up_ActionThreshold :: "ActionThreshold option"
  up_ApprovalModel :: "string option"
  up_BudgetName :: "string option"
  up_Definition :: "Definition option"
  up_ExecutionRoleArn :: "string option"
  up_NotificationType :: "string option"
  up_Subscribers :: "Subscriber list option"

record DeleteBudgetActionInput =
  del_AccountId :: "string option"
  del_ActionId :: "string option"
  del_BudgetName :: "string option"

record Action =
  ac_ActionThreshold :: "ActionThreshold option"
  ac_ActionType :: "string option"
  ac_ApprovalModel :: "string option"
  ac_Definition :: "Definition option"
  ac_ExecutionRoleArn :: "string option"
  ac_NotificationType :: "string option"
  ac_Status :: "string option"
  ac_Subscribers :: "Subscriber list"

text \<open>
  The vendor, seen through the client: what each call answers. \<open>CreateBudgetAction n\<close>
  is the answer to the attempt number \<open>n\<close> (from 0) of one create operation; the other
  calls are made once per operation. The finder
  \<open>finder.ActionByAccountIDActionIDAndBudgetName\<close> and the waiter
  \<open>waiter.ActionAvailable\<close> are not among the source files: what they return is part of
  this environment.
\<close>

record budgetconn =
  CreateBudgetAction :: "nat \<Rightarrow> CreateBudgetActionInput \<Rightarrow> error + CreateBudgetActionOutput"
  UpdateBudgetAction :: "UpdateBudgetActionInput \<Rightarrow> error option"
  DeleteBudgetAction :: "DeleteBudgetActionInput \<Rightarrow> error option"
  ActionByAccountIDActionIDAndBudgetName :: "string \<Rightarrow> string \<Rightarrow> string \<Rightarrow> error + Action"
  ActionAvailable :: "string \<Rightarrow> string \<Rightarrow> string \<Rightarrow> error option"

record AWSClient =
  budgetconn :: budgetconn
  accountid :: string
  partition :: string

definition error_of :: "error + 'a \<Rightarrow> error option" where
  "error_of r = (case r of Inl err \<Rightarrow> Some err | Inr _ \<Rightarrow> None)"

section \<open>Read\<close>

text \<open>Lines 273 to 304 of the read function: the attributes are set from the vendor's answer.\<close>

definition resourceAwsBudgetsBudgetActionRead_set ::
  "(string list \<Rightarrow> val) \<Rightarrow> ResourceData \<Rightarrow> AWSClient \<Rightarrow> string \<Rightarrow> string \<Rightarrow> string \<Rightarrow> Action
     \<Rightarrow> error option \<times> ResourceData" where
  "resourceAwsBudgetsBudgetActionRead_set fss d meta accountID actionID budgetName output =
     (let d = snd (Set_attr d ''account_id'' (VString accountID));
          d = snd (Set_attr d ''action_id'' (VString actionID))
      in case Set_attr d ''action_threshold''
                (list_of_maps (flattenAwsBudgetsBudgetActionActionThreshold (ac_ActionThreshold output))) of
           (Some err, d) \<Rightarrow> (Some (Errorf ''error setting action_threshold'' err), d)
         | (None, d) \<Rightarrow>
      (let d = snd (Set_attr d ''action_type'' (string_ptr_val (ac_ActionType output)));
           d = snd (Set_attr d ''approval_model'' (string_ptr_val (ac_ApprovalModel output)));
           d = snd (Set_attr d ''budget_name'' (VString budgetName))
       in case Set_attr d ''definition''
                 (list_of_maps (flattenAwsBudgetsBudgetActionDefinition fss (ac_Definition output))) of
            (Some err, d) \<Rightarrow> (Some (Errorf ''error setting definition'' err), d)
          | (None, d) \<Rightarrow>
      (let d = snd (Set_attr d ''execution_role_arn'' (string_ptr_val (ac_ExecutionRoleArn output)));
           d = snd (Set_attr d ''notification_type'' (string_ptr_val (ac_NotificationType output)));
           d = snd (Set_attr d ''status'' (string_ptr_val (ac_Status output)))
       in case Set_attr d ''subscriber''
                 (list_of_maps (flattenAwsBudgetsBudgetActionSubscriber (ac_Subscribers output))) of
            (Some err, d) \<Rightarrow> (Some (Errorf ''error setting subscriber'' err), d)
          | (None, d) \<Rightarrow>
      (let arn = ''arn:'' @ partition meta @ '':budgets::'' @ accountid meta @ '':'' @
                 ''budget/'' @ budgetName @ ''/action/'' @ actionID;
           d = snd (Set_attr d ''arn'' (VString arn))
       in (None, d)))))"

definition resourceAwsBudgetsBudgetActionRead ::
  "(string list \<Rightarrow> val) \<Rightarrow> ResourceData \<Rightarrow> AWSClient \<Rightarrow> error option \<times> ResourceData" where
  "resourceAwsBudgetsBudgetActionRead fss d meta =
     (let conn = budgetconn meta in
      case BudgetActionParseResourceID (d_Id d) of
        Inl err \<Rightarrow> (Some err, d)
      | Inr (accountID, actionID, budgetName) \<Rightarrow>
          (let r = ActionByAccountIDActionIDAndBudgetName conn accountID actionID budgetName;
               err = error_of r
           in if \<not> d_IsNewResource d \<and> NotFound err then (None, SetId [] d)
              else (case r of
                      Inl err \<Rightarrow>
                        (Some (Errorf (''error reading Budget Action ('' @ d_Id d @ '')'') err), d)
                    | Inr output \<Rightarrow>
                        resourceAwsBudgetsBudgetActionRead_set fss d meta
                          accountID actionID budgetName output)))"

section \<open>Update\<close>

text \<open>Lines 316 to 344 of the update function: the request.\<close>

definition resourceAwsBudgetsBudgetActionUpdate_input ::
  "(val list \<Rightarrow> string list) \<Rightarrow> ResourceData \<Rightarrow> string \<Rightarrow> string \<Rightarrow> string
     \<Rightarrow> panic + UpdateBudgetActionInput" where
  "resourceAwsBudgetsBudgetActionUpdate_input ess d accountID actionID budgetName =
     (let input = \<lparr>up_AccountId = aws_String accountID, up_ActionId = aws_String actionID,
                    up_ActionThreshold = None, up_ApprovalModel = None,
                    up_BudgetName = aws_String budgetName, up_Definition = None,
                    up_ExecutionRoleArn = None, up_NotificationType = None,
                    up_Subscribers = None\<rparr>
      in bind_panic
           (if d_HasChange d ''action_threshold''
            then bind_panic (Get_list d ''action_threshold'') (\<lambda>l.
                 bind_panic (expandAwsBudgetsBudgetActionActionThreshold l) (\<lambda>x.
                 Inr (input\<lparr>up_ActionThreshold := x\<rparr>)))
            else Inr input) (\<lambda>input.
         bind_panic
           (if d_HasChange d ''approval_model''
            then bind_panic (Get_string d ''approval_model'') (\<lambda>v.
                 Inr (input\<lparr>up_ApprovalModel := aws_String v\<rparr>))
            else Inr input) (\<lambda>input.
         bind_panic
           (if d_HasChange d ''definition''
            then bind_panic (Get_list d ''definition'') (\<lambda>l.
                 bind_panic (expandAwsBudgetsBudgetActionActionDefinition ess l) (\<lambda>x.
                 Inr (input\<lparr>up_Definition := x\<rparr>)))
            else Inr input) (\<lambda>input.
         bind_panic
           (if d_HasChange d ''execution_role_arn''
            then bind_panic (Get_string d ''execution_role_arn'') (\<lambda>v.
                 Inr (input\<lparr>up_ExecutionRoleArn := aws_String v\<rparr>))
            else Inr input) (\<lambda>input.
         bind_panic
           (if d_HasChange d ''notification_type''
            then bind_panic (Get_string d ''notification_type'') (\<lambda>v.
                 Inr (input\<lparr>up_NotificationType := aws_String v\<rparr>))
            else Inr input) (\<lambda>input.
           (if d_HasChange d ''subscriber''
            then bind_panic (Get_set d ''subscriber'') (\<lambda>l.
                 bind_panic (expandAwsBudgetsBudgetActionSubscriber l) (\<lambda>x.
                 Inr (input\<lparr>up_Subscribers := Some x\<rparr>)))
            else Inr input)))))))"

definition resourceAwsBudgetsBudgetActionUpdate ::
  "(val list \<Rightarrow> string list) \<Rightarrow> (string list \<Rightarrow> val) \<Rightarrow> ResourceData \<Rightarrow> AWSClient
     \<Rightarrow> panic + (error option \<times> ResourceData)" where
  "resourceAwsBudgetsBudgetActionUpdate ess fss d meta =
     (let conn = budgetconn meta in
      case BudgetActionParseResourceID (d_Id d) of
        Inl err \<Rightarrow> Inr (Some err, d)
      | Inr (accountID, actionID, budgetName) \<Rightarrow>
          bind_panic (resourceAwsBudgetsBudgetActionUpdate_input ess d accountID actionID budgetName)
            (\<lambda>input.
               case UpdateBudgetAction conn input of
                 Some err \<Rightarrow>
                   Inr (Some (Errorf (''error updating Budget Action ('' @ d_Id d @ '')'') err), d)
               | None \<Rightarrow>
                   (case ActionAvailable conn accountID actionID budgetName of
                      Some err \<Rightarrow>
                        Inr (Some (Errorf (''error waiting for Budget Action ('' @ d_Id d @
                                           '') to update'') err), d)
                    | None \<Rightarrow> Inr (resourceAwsBudgetsBudgetActionRead fss d meta))))"

section \<open>Delete\<close>

definition resourceAwsBudgetsBudgetActionDelete :: "ResourceData \<Rightarrow> AWSClient \<Rightarrow> error option" where
  "resourceAwsBudgetsBudgetActionDelete d meta =
     (let conn = budgetconn meta in
      case BudgetActionParseResourceID (d_Id d) of
        Inl err \<Rightarrow> Some err
      | Inr (accountID, actionID, budgetName) \<Rightarrow>
          (let err = DeleteBudgetAction conn
                       \<lparr>del_AccountId = aws_String accountID, del_ActionId = aws_String actionID,
                        del_BudgetName = aws_String budgetName\<rparr>
           in if ErrCodeEquals err ErrCodeNotFoundException then None
              else (case err of
                      Some e \<Rightarrow>
                        Some (Errorf (''error deleting Budget Action ('' @ d_Id d @ '')'') e)
                    | None \<Rightarrow> None)))"

section \<open>Create\<close>

text \<open>
  Modelled from the spec: \<open>tfresource.RetryWhenAwsErrCodeEquals\<close> is not among the
  source files. The spec gives its behaviour as "retry on one named error code,
  otherwise propagate". The timeout is the number of further attempts that fit in it;
  \<open>f n\<close> is what the attempt number \<open>n\<close> returns. The result is the number of attempts
  made and what the last one returned.
\<close>

fun RetryWhenAwsErrCodeEquals ::
  "nat \<Rightarrow> (nat \<Rightarrow> error + 'a) \<Rightarrow> string \<Rightarrow> nat \<times> (error + 'a)" where
  "RetryWhenAwsErrCodeEquals 0 f code = (1, f 0)"
| "RetryWhenAwsErrCodeEquals (Suc timeout) f code =
     (if ErrCodeEquals (error_of (f 0)) code
      then (let (n, r) = RetryWhenAwsErrCodeEquals timeout (\<lambda>i. f (Suc i)) code in (Suc n, r))
      else (1, f 0))"

text \<open>Lines 213 to 228 of the create function: the account ID and the request.\<close>

definition resourceAwsBudgetsBudgetActionCreate_input ::
  "(val list \<Rightarrow> string list) \<Rightarrow> ResourceData \<Rightarrow> AWSClient
     \<Rightarrow> panic + (string \<times> CreateBudgetActionInput)" where
  "resourceAwsBudgetsBudgetActionCreate_input ess d meta =
     bind_panic (Get_string d ''account_id'') (\<lambda>accountID.
     (let accountID = (if accountID = [] then accountid meta else accountID) in
     bind_panic (Get_list d ''action_threshold'') (\<lambda>l.
     bind_panic (expandAwsBudgetsBudgetActionActionThreshold l) (\<lambda>threshold.
     bind_panic (Get_string d ''action_type'') (\<lambda>actionType.
     bind_panic (Get_string d ''approval_model'') (\<lambda>approvalModel.
     bind_panic (Get_string d ''budget_name'') (\<lambda>budgetName.
     bind_panic (Get_list d ''definition'') (\<lambda>l.
     bind_panic (expandAwsBudgetsBudgetActionActionDefinition ess l) (\<lambda>definition.
     bind_panic (Get_string d ''execution_role_arn'') (\<lambda>executionRoleArn.
     bind_panic (Get_string d ''notification_type'') (\<lambda>notificationType.
     bind_panic (Get_set d ''subscriber'') (\<lambda>l.
     bind_panic (expandAwsBudgetsBudgetActionSubscriber l) (\<lambda>subscribers.
       Inr (accountID,
            \<lparr>cr_AccountId = aws_String accountID, cr_ActionThreshold = threshold,
             cr_ActionType = aws_String actionType, cr_ApprovalModel = aws_String approvalModel,
             cr_BudgetName = aws_String budgetName, cr_Definition = definition,
             cr_ExecutionRoleArn = aws_String executionRoleArn,
             cr_NotificationType = aws_String notificationType,
             cr_Subscribers = Some subscribers\<rparr>))))))))))))))"

text \<open>
  The attempts of \<open>CreateBudgetAction\<close> that one create operation makes;
  \<open>PropagationTimeout\<close> stands for \<open>iamwaiter.PropagationTimeout\<close>.
\<close>

definition CreateBudgetAction_retried ::
  "nat \<Rightarrow> AWSClient \<Rightarrow> CreateBudgetActionInput \<Rightarrow> nat \<times> (error + CreateBudgetActionOutput)" where
  "CreateBudgetAction_retried PropagationTimeout meta input =
     RetryWhenAwsErrCodeEquals PropagationTimeout
       (\<lambda>n. CreateBudgetAction (budgetconn meta) n input) ErrCodeAccessDeniedException"

definition resourceAwsBudgetsBudgetActionCreate ::
  "nat \<Rightarrow> (val list \<Rightarrow> string list) \<Rightarrow> (string list \<Rightarrow> val) \<Rightarrow> ResourceData \<Rightarrow> AWSClient
     \<Rightarrow> panic + (error option \<times> ResourceData)" where
  "resourceAwsBudgetsBudgetActionCreate PropagationTimeout ess fss d meta =
     (let conn = budgetconn meta in
      bind_panic (resourceAwsBudgetsBudgetActionCreate_input ess d meta) (\<lambda>(accountID, input).
        case snd (CreateBudgetAction_retried PropagationTimeout meta input) of
          Inl err \<Rightarrow> Inr (Some (Errorf ''error creating Budget Action'' err), d)
        | Inr output \<Rightarrow>
            (let actionID = aws_StringValue (out_ActionId output);
                 budgetName = aws_StringValue (out_BudgetName output);
                 d = SetId (BudgetActionCreateResourceID accountID actionID budgetName) d
             in case ActionAvailable conn accountID actionID budgetName of
                  Some err \<Rightarrow>
                    Inr (Some (Errorf (''error waiting for Budget Action ('' @ d_Id d @
                                       '') to create'') err), d)
                | None \<Rightarrow> Inr (resourceAwsBudgetsBudgetActionRead fss d meta))))"

section \<open>Validation of configuration fields\<close>

text \<open>
  The regular expressions of the schema, with the constructs they use. Matching is by
  derivatives; \<open>NoMatch\<close>, \<open>EmptyMatch\<close> and \<open>Alternate\<close> arise as derivatives. A
  string is matched byte by byte: the classes used here contain ASCII characters only.
\<close>

datatype regexp =
    NoMatch
  | EmptyMatch
  | CharClass "char list"
  | NegCharClass "char list"
  | AnyCharNotNL
  | Concat regexp regexp
  | Alternate regexp regexp
  | Star regexp
  | Plus regexp
  | Quest regexp

fun nullable :: "regexp \<Rightarrow> bool" where
  "nullable NoMatch = False"
| "nullable EmptyMatch = True"
| "nullable (CharClass cs) = False"
| "nullable (NegCharClass cs) = False"
| "nullable AnyCharNotNL = False"
| "nullable (Concat r s) = (nullable r \<and> nullable s)"
| "nullable (Alternate r s) = (nullable r \<or> nullable s)"
| "nullable (Star r) = True"
| "nullable (Plus r) = nullable r"
| "nullable (Quest r) = True"

fun deriv :: "char \<Rightarrow> regexp \<Rightarrow> regexp" where
  "deriv c NoMatch = NoMatch"
| "deriv c EmptyMatch = NoMatch"
| "deriv c (CharClass cs) = (if c \<in> set cs then EmptyMatch else NoMatch)"
| "deriv c (NegCharClass cs) = (if c \<in> set cs then NoMatch else EmptyMatch)"
| "deriv c AnyCharNotNL = (if c = CHR 0x0A then NoMatch else EmptyMatch)"
| "deriv c (Concat r s) =
     (if nullable r then Alternate (Concat (deriv c r) s) (deriv c s)
      else Concat (deriv c r) s)"
| "deriv c (Alternate r s) = Alternate (deriv c r) (deriv c s)"
| "deriv c (Star r) = Concat (deriv c r) (Star r)"
| "deriv c (Plus r) = Concat (deriv c r) (Star r)"
| "deriv c (Quest r) = deriv c r"

text \<open>Some prefix of the string matches the expression.\<close>

fun match_prefix :: "regexp \<Rightarrow> string \<Rightarrow> bool" where
  "match_prefix r [] = nullable r"
| "match_prefix r (c # cs) = (nullable r \<or> match_prefix (deriv c r) cs)"

text \<open>
  \<open>(*regexp.Regexp).MatchString\<close>: the expression is not anchored, so the string
  matches when some substring of it does.
\<close>

fun MatchString :: "regexp \<Rightarrow> string \<Rightarrow> bool" where
  "MatchString r [] = nullable r"
| "MatchString r (c # cs) = (match_prefix r (c # cs) \<or> MatchString r cs)"

text \<open>
  The plugin SDK's validators: a \<open>SchemaValidateFunc\<close> takes the value and the name of
  the field and returns warnings and errors; the value is accepted when there is no
  error.
\<close>

type_synonym SchemaValidateFunc = "val \<Rightarrow> string \<Rightarrow> string list \<times> error list"

definition StringLenBetween :: "nat \<Rightarrow> nat \<Rightarrow> SchemaValidateFunc" where
  "StringLenBetween lo hi i k =
     (case i of
        VString v \<Rightarrow>
          if length v < lo \<or> length v > hi
          then ([], [ErrorString (''expected length of '' @ k @ '' to be in the given range, got '' @ v)])
          else ([], [])
      | _ \<Rightarrow> ([], [ErrorString (''expected type of '' @ k @ '' to be string'')]))"

definition StringMatch :: "regexp \<Rightarrow> string \<Rightarrow> SchemaValidateFunc" where
  "StringMatch r message i k =
     (case i of
        VString v \<Rightarrow>
          if \<not> MatchString r v
          then ([], [ErrorString (''invalid value for '' @ k @ '' ('' @ message @ '')'')])
          else ([], [])
      | _ \<Rightarrow> ([], [ErrorString (''expected type of '' @ k @ '' to be string'')]))"

fun All :: "SchemaValidateFunc list \<Rightarrow> SchemaValidateFunc" where
  "All [] i k = ([], [])"
| "All (v # vs) i k =
     (let (ws, es) = v i k; (ws', es') = All vs i k in (ws @ ws', es @ es'))"

text \<open>A string value is accepted for a field when its validator returns no error.\<close>

definition accepted :: "SchemaValidateFunc \<Rightarrow> string \<Rightarrow> string \<Rightarrow> bool" where
  "accepted validate k v = (snd (validate (VString v) k) = [])"

text \<open>The expression \<open>[^:\\]+\<close> of \<open>budget_name\<close>.\<close>

definition budget_name_regexp :: regexp where
  "budget_name_regexp = Plus (NegCharClass [CHR '':'', CHR 0x5C])"

definition budget_name_ValidateFunc :: SchemaValidateFunc where
  "budget_name_ValidateFunc =
     All [StringLenBetween 1 100,
          StringMatch budget_name_regexp
            (''The '' @ [CHR 0x27, CHR '':'', CHR 0x27] @ '' and '' @ [CHR 0x27, CHR 0x5C, CHR 0x27] @
             '' characters aren'' @ [CHR 0x27] @ ''t allowed.'')]"

text \<open>
  The expression \<open>(.*[\n\r\t\f\ ]?)*\<close> of a subscriber's \<open>address\<close>: the class holds
  the line feed, the carriage return, the tab, the form feed and the space.
\<close>

definition address_regexp :: regexp where
  "address_regexp =
     Star (Concat (Star AnyCharNotNL)
             (Quest (CharClass [CHR 0x0A, CHR 0x0D, CHR 0x09, CHR 0x0C, CHR 0x20])))"

definition address_ValidateFunc :: SchemaValidateFunc where
  "address_ValidateFunc =
     All [StringLenBetween 1 2147483647,
          StringMatch address_regexp (''Can'' @ [CHR 0x27] @ ''t contain line breaks.'')]"

section \<open>What the schema accepts for the nested blocks\<close>

text \<open>
  The SDK hands a list of blocks over as a list whose elements are maps, or nil for a
  block in which nothing is set.
\<close>

fun nil_or_map :: "val \<Rightarrow> bool" where
  "nil_or_map VNil = True"
| "nil_or_map (VMap m) = True"
| "nil_or_map _ = False"

fun is_map :: "val \<Rightarrow> bool" where
  "is_map (VMap m) = True"
| "is_map _ = False"

fun is_string :: "val \<Rightarrow> bool" where
  "is_string (VString s) = True"
| "is_string _ = False"

definition block_list :: "val list \<Rightarrow> bool" where
  "block_list l = list_all nil_or_map l"

text \<open>
  A nested block of the map \<open>m\<close> is given when its entry is a list that starts with a
  map.
\<close>

definition block_given :: "(string \<Rightarrow> val option) \<Rightarrow> string \<Rightarrow> bool" where
  "block_given m key = (case listOk (m key) of Some (VMap b # rest) \<Rightarrow> True | _ \<Rightarrow> False)"

text \<open>
  A set of strings with between \<open>lo\<close> and \<open>hi\<close> elements (\<open>MaxItems\<close>; a required set
  has at least one element, an optional one may be missing).
\<close>

definition string_set :: "nat \<Rightarrow> nat \<Rightarrow> val option \<Rightarrow> bool" where
  "string_set lo hi entry =
     (case entry of
        Some (VSet xs) \<Rightarrow> lo \<le> length xs \<and> length xs \<le> hi \<and> list_all is_string xs
      | None \<Rightarrow> lo = 0
      | _ \<Rightarrow> False)"

text \<open>The vendor SDK's \<open>budgets.ActionSubType_Values()\<close>.\<close>

definition ActionSubType_Values :: "string list" where
  "ActionSubType_Values = [''STOP_EC2_INSTANCES'', ''STOP_RDS_INSTANCES'']"

text \<open>
  The schema of \<open>scp_action_definition\<close>, \<open>ssm_action_definition\<close> and
  \<open>iam_action_definition\<close> (lines 93 to 167). \<open>validateArn\<close> is not among the source
  files and is a parameter.
\<close>

fun scp_action_definition_accepts :: "val \<Rightarrow> bool" where
  "scp_action_definition_accepts (VMap m) =
     (stringOk (m ''policy_id'') \<noteq> None \<and> string_set 1 100 (m ''target_ids''))"
| "scp_action_definition_accepts _ = False"

fun ssm_action_definition_accepts :: "val \<Rightarrow> bool" where
  "ssm_action_definition_accepts (VMap m) =
     ((case stringOk (m ''action_sub_type'') of
         Some s \<Rightarrow> s \<in> set ActionSubType_Values
       | None \<Rightarrow> False) \<and>
      string_set 1 100 (m ''instance_ids'') \<and>
      stringOk (m ''region'') \<noteq> None)"
| "ssm_action_definition_accepts _ = False"

fun iam_action_definition_accepts :: "SchemaValidateFunc \<Rightarrow> val \<Rightarrow> bool" where
  "iam_action_definition_accepts validateArn (VMap m) =
     ((case stringOk (m ''policy_arn'') of
         Some s \<Rightarrow> accepted validateArn ''policy_arn'' s
       | None \<Rightarrow> False) \<and>
      string_set 0 100 (m ''groups'') \<and>
      string_set 0 100 (m ''roles'') \<and>
      string_set 0 100 (m ''users''))"
| "iam_action_definition_accepts validateArn _ = False"

text \<open>An optional nested block with \<open>MaxItems: 1\<close>.\<close>

definition optional_block :: "(val \<Rightarrow> bool) \<Rightarrow> val option \<Rightarrow> bool" where
  "optional_block elem_accepts entry =
     (case entry of
        None \<Rightarrow> True
      | Some (VList v) \<Rightarrow> length v \<le> 1 \<and> list_all elem_accepts v
      | _ \<Rightarrow> False)"

text \<open>
  The schema of \<open>definition\<close> (lines 87 to 170): a required list of at most one block,
  whose three nested blocks are each optional. No rule of the schema relates the three
  nested blocks to each other.
\<close>

fun definition_block_accepts :: "SchemaValidateFunc \<Rightarrow> val \<Rightarrow> bool" where
  "definition_block_accepts validateArn VNil = True"
| "definition_block_accepts validateArn (VMap m) =
     (optional_block (iam_action_definition_accepts validateArn) (m ''iam_action_definition'') \<and>
      optional_block ssm_action_definition_accepts (m ''ssm_action_definition'') \<and>
      optional_block scp_action_definition_accepts (m ''scp_action_definition''))"
| "definition_block_accepts validateArn _ = False"

definition definition_schema_accepts :: "SchemaValidateFunc \<Rightarrow> val list \<Rightarrow> bool" where
  "definition_schema_accepts validateArn l =
     (1 \<le> length l \<and> length l \<le> 1 \<and> list_all (definition_block_accepts validateArn) l)"

text \<open>The number of branches of a \<open>Definition\<close> that are not nil.\<close>

definition populated_branches :: "Definition \<Rightarrow> nat" where
  "populated_branches c =
     (if IamActionDefinition c \<noteq> None then 1 else 0) +
     (if SsmActionDefinition c \<noteq> None then 1 else 0) +
     (if ScpActionDefinition c \<noteq> None then 1 else 0)"

text \<open>The number of nested blocks given in a \<open>definition\<close> block.\<close>

definition blocks_given :: "(string \<Rightarrow> val option) \<Rightarrow> nat" where
  "blocks_given m =
     (if block_given m ''iam_action_definition'' then 1 else 0) +
     (if block_given m ''ssm_action_definition'' then 1 else 0) +
     (if block_given m ''scp_action_definition'' then 1 else 0)"

text \<open>
  What the expanders need of a list of blocks to return without a panic: the blocks,
  and for \<open>definition\<close> the nested blocks, are maps or nil.
\<close>

definition nested_blocks :: "(string \<Rightarrow> val option) \<Rightarrow> string \<Rightarrow> bool" where
  "nested_blocks m key = (case listOk (m key) of Some v \<Rightarrow> block_list v | None \<Rightarrow> True)"

fun definition_block :: "val \<Rightarrow> bool" where
  "definition_block VNil = True"
| "definition_block (VMap m) =
     (nested_blocks m ''ssm_action_definition'' \<and>
      nested_blocks m ''scp_action_definition'' \<and>
      nested_blocks m ''iam_action_definition'')"
| "definition_block _ = False"

section \<open>Example values\<close>

text \<open>
  Concrete values on which the theorems below are instantiated: instances of the two
  helper parameters and of the ARN validator, a configuration, and a vendor.
\<close>

definition example_expandStringSet :: "val list \<Rightarrow> string list" where
  "example_expandStringSet vs = List.map_filter (\<lambda>v. stringOk (Some v)) vs"

definition example_flattenStringSet :: "string list \<Rightarrow> val" where
  "example_flattenStringSet xs = VSet (map VString xs)"

definition example_validateArn :: SchemaValidateFunc where
  "example_validateArn i k = ([], [])"

definition example_scp_block :: val where
  "example_scp_block =
     VMap [''policy_id'' \<mapsto> VString ''p-1'', ''target_ids'' \<mapsto> VSet [VString ''ou-1'']]"

definition example_ssm_block :: val where
  "example_ssm_block =
     VMap [''action_sub_type'' \<mapsto> VString ''STOP_EC2_INSTANCES'',
           ''instance_ids'' \<mapsto> VSet [VString ''i-1''],
           ''region'' \<mapsto> VString ''us-east-1'']"

text \<open>A \<open>definition\<close> with one nested block, and one with two.\<close>

definition example_definition :: "val list" where
  "example_definition =
     [VMap [''iam_action_definition'' \<mapsto> VList [],
            ''ssm_action_definition'' \<mapsto> VList [],
            ''scp_action_definition'' \<mapsto> VList [example_scp_block]]]"

definition example_definition_two_blocks :: "val list" where
  "example_definition_two_blocks =
     [VMap [''iam_action_definition'' \<mapsto> VList [],
            ''ssm_action_definition'' \<mapsto> VList [example_ssm_block],
            ''scp_action_definition'' \<mapsto> VList [example_scp_block]]]"

definition example_Get :: "string \<Rightarrow> val" where
  "example_Get key =
     (if key = ''account_id'' then VString []
      else if key = ''action_threshold'' then
        VList [VMap [''action_threshold_type'' \<mapsto> VString ''PERCENTAGE'',
                     ''action_threshold_value'' \<mapsto> VFloat 0x4059000000000000]]
      else if key = ''action_type'' then VString ''APPLY_SCP_POLICY''
      else if key = ''approval_model'' then VString ''AUTOMATIC''
      else if key = ''budget_name'' then VString ''monthly''
      else if key = ''definition'' then VList example_definition
      else if key = ''execution_role_arn'' then VString ''arn:aws:iam::123456789012:role/r''
      else if key = ''notification_type'' then VString ''ACTUAL''
      else if key = ''subscriber'' then
        VSet [VMap [''address'' \<mapsto> VString ''ops@example.com'',
                    ''subscription_type'' \<mapsto> VString ''EMAIL'']]
      else VNil)"

text \<open>An existing resource whose \<open>approval_model\<close> changed.\<close>

definition example_d :: ResourceData where
  "example_d =
     \<lparr>d_Id = ''123456789012/a1b2/monthly'', d_IsNewResource = False, d_Get = example_Get,
      d_HasChange = (\<lambda>key. key = ''approval_model''), d_SetError = (\<lambda>key v. None)\<rparr>"

text \<open>
  An existing resource whose \<open>definition\<close> changed to a block in which nothing is set
  (\<open>definition {}\<close>), which the SDK hands over as a list of one nil.
\<close>

definition example_d_empty_definition :: ResourceData where
  "example_d_empty_definition =
     example_d\<lparr>d_Get := example_Get(''definition'' := VList [VNil]),
               d_HasChange := (\<lambda>key. key = ''definition'')\<rparr>"

text \<open>
  A vendor that no longer has the action, and that answers the first two attempts to
  create one with \<open>AccessDeniedException\<close> and the third with \<open>InternalErrorException\<close>.
\<close>

definition example_conn :: budgetconn where
  "example_conn =
     \<lparr>CreateBudgetAction = (\<lambda>n input.
        if n < 2 then Inl (AwsError ''AccessDeniedException'' ''role not yet usable'')
        else Inl (AwsError ''InternalErrorException'' ''try later'')),
      UpdateBudgetAction = (\<lambda>input. None),
      DeleteBudgetAction = (\<lambda>input. Some (AwsError ''NotFoundException'' ''no such action'')),
      ActionByAccountIDActionIDAndBudgetName = (\<lambda>accountID actionID budgetName. Inl NotFoundError),
      ActionAvailable = (\<lambda>accountID actionID budgetName. None)\<rparr>"

definition example_meta :: AWSClient where
  "example_meta = \<lparr>budgetconn = example_conn, accountid = ''123456789012'', partition = ''aws''\<rparr>"

section \<open>Properties of the resource identifier\<close>

lemma Split_no_sep: "sep \<notin> set a \<Longrightarrow> Split a sep = [a]"
  by (induction a) auto

lemma Split_append_sep:
  "sep \<notin> set a \<Longrightarrow> Split (a @ sep # rest) sep = a # Split rest sep"
  by (induction a) auto

text \<open>
  C1 (as amended). When none of the account ID, the action ID and the budget name
  contains the separator, parsing the identifier built from them succeeds and returns
  exactly those three components.
\<close>

theorem BudgetActionResourceID_roundtrip:
  assumes "budgetActionResourceIDSeparator \<notin> set accountID"
    and "budgetActionResourceIDSeparator \<notin> set actionID"
    and "budgetActionResourceIDSeparator \<notin> set budgetName"
  shows "BudgetActionParseResourceID (BudgetActionCreateResourceID accountID actionID budgetName)
           = Inr (accountID, actionID, budgetName)"
  using assms
  by (simp add: BudgetActionParseResourceID_def BudgetActionCreateResourceID_def
      Split_append_sep Split_no_sep)

theorem BudgetActionResourceID_roundtrip_witness:
  "budgetActionResourceIDSeparator \<notin> set ''123456789012'' \<and>
   budgetActionResourceIDSeparator \<notin> set ''a1b2'' \<and>
   budgetActionResourceIDSeparator \<notin> set ''monthly'' \<and>
   BudgetActionParseResourceID
     (BudgetActionCreateResourceID ''123456789012'' ''a1b2'' ''monthly'')
     = Inr (''123456789012'', ''a1b2'', ''monthly'')"
  using BudgetActionResourceID_roundtrip [of "''123456789012''" "''a1b2''" "''monthly''"]
  by (simp add: budgetActionResourceIDSeparator_def)

text \<open>
  The claim as stated, for every budget name, fails: a budget name that contains the
  separator makes the identifier split into four pieces, and parsing reports an error.
  No other way of parsing would do: the same identifier is built from two different
  triples of components.
\<close>

theorem BudgetActionResourceID_roundtrip_counterexample:
  "BudgetActionParseResourceID
     (BudgetActionCreateResourceID ''123456789012'' ''a1b2'' ''ops/monthly'')
     \<noteq> Inr (''123456789012'', ''a1b2'', ''ops/monthly'') \<and>
   BudgetActionCreateResourceID ''123456789012'' ''a1b2/ops'' ''monthly'' =
     BudgetActionCreateResourceID ''123456789012'' ''a1b2'' ''ops/monthly''"
  by (simp add: BudgetActionParseResourceID_def BudgetActionCreateResourceID_def
      budgetActionResourceIDSeparator_def)

section \<open>Properties of the expand and flatten conversions\<close>

text \<open>
  C3. For a one-element \<open>action_threshold\<close> list whose map holds exactly a non-empty
  \<open>action_threshold_type\<close> string and an \<open>action_threshold_value\<close> float, expanding
  succeeds and flattening the result gives back the list.
\<close>

theorem threshold_flatten_expand:
  assumes "t \<noteq> []"
    and "m ''action_threshold_type'' = Some (VString t)"
    and "m ''action_threshold_value'' = Some (VFloat v)"
    and "dom m = {''action_threshold_type'', ''action_threshold_value''}"
  shows "\<exists>lt. expandAwsBudgetsBudgetActionActionThreshold [VMap m] = Inr lt \<and>
           map VMap (flattenAwsBudgetsBudgetActionActionThreshold lt) = [VMap m]"
proof -
  have m: "m = [''action_threshold_type'' \<mapsto> VString t, ''action_threshold_value'' \<mapsto> VFloat v]"
  proof
    fix k
    show "m k = [''action_threshold_type'' \<mapsto> VString t, ''action_threshold_value'' \<mapsto> VFloat v] k"
    proof (cases "k \<in> dom m")
      case True
      then show ?thesis using assms by auto
    next
      case False
      then have "m k = None" by blast
      with False assms(4) show ?thesis by auto
    qed
  qed
  have e: "expandAwsBudgetsBudgetActionActionThreshold [VMap m] =
             Inr (Some \<lparr>ActionThresholdType = Some t, ActionThresholdValue = Some v\<rparr>)"
    using assms(1-3) by (simp add: aws_String_def aws_Float64_def)
  have f: "flattenAwsBudgetsBudgetActionActionThreshold
             (Some \<lparr>ActionThresholdType = Some t, ActionThresholdValue = Some v\<rparr>) = [m]"
    by (simp add: flattenAwsBudgetsBudgetActionActionThreshold_def aws_StringValue_def
        aws_Float64Value_def m [symmetric])
  show ?thesis
  proof (intro exI conjI)
    show "expandAwsBudgetsBudgetActionActionThreshold [VMap m] =
            Inr (Some \<lparr>ActionThresholdType = Some t, ActionThresholdValue = Some v\<rparr>)"
      by (rule e)
    show "map VMap (flattenAwsBudgetsBudgetActionActionThreshold
            (Some \<lparr>ActionThresholdType = Some t, ActionThresholdValue = Some v\<rparr>)) = [VMap m]"
      by (simp only: f list.map)
  qed
qed

text \<open>The threshold of 100 percent: \<open>0x4059000000000000\<close> is the float 100.\<close>

theorem threshold_flatten_expand_witness:
  "\<exists>lt. expandAwsBudgetsBudgetActionActionThreshold
           [VMap [''action_threshold_type'' \<mapsto> VString ''PERCENTAGE'',
                  ''action_threshold_value'' \<mapsto> VFloat 0x4059000000000000]] = Inr lt \<and>
         map VMap (flattenAwsBudgetsBudgetActionActionThreshold lt) =
           [VMap [''action_threshold_type'' \<mapsto> VString ''PERCENTAGE'',
                  ''action_threshold_value'' \<mapsto> VFloat 0x4059000000000000]]"
  using threshold_flatten_expand [of "''PERCENTAGE''"
      "[''action_threshold_type'' \<mapsto> VString ''PERCENTAGE'',
        ''action_threshold_value'' \<mapsto> VFloat 0x4059000000000000]" "0x4059000000000000"]
  by (simp add: insert_commute)

text \<open>
  C9. Each of the five expand helpers returns nil, without a panic, on the empty list
  and on a list whose first element is nil.
\<close>

theorem expand_nil_total:
  "expandAwsBudgetsBudgetActionActionThreshold [] = Inr None \<and>
   expandAwsBudgetsBudgetActionActionThreshold (VNil # rest) = Inr None \<and>
   expandAwsBudgetsBudgetActionActionDefinition ess [] = Inr None \<and>
   expandAwsBudgetsBudgetActionActionDefinition ess (VNil # rest) = Inr None \<and>
   expandAwsBudgetsBudgetActionActionScpActionDefinition ess [] = Inr None \<and>
   expandAwsBudgetsBudgetActionActionScpActionDefinition ess (VNil # rest) = Inr None \<and>
   expandAwsBudgetsBudgetActionActionSsmActionDefinition ess [] = Inr None \<and>
   expandAwsBudgetsBudgetActionActionSsmActionDefinition ess (VNil # rest) = Inr None \<and>
   expandAwsBudgetsBudgetActionActionIamActionDefinition ess [] = Inr None \<and>
   expandAwsBudgetsBudgetActionActionIamActionDefinition ess (VNil # rest) = Inr None"
  by simp

theorem expand_nil_total_witness:
  "expandAwsBudgetsBudgetActionActionThreshold [VNil, VString ''x''] = Inr None \<and>
   expandAwsBudgetsBudgetActionActionDefinition (\<lambda>vs. []) [VNil, VString ''x''] = Inr None \<and>
   expandAwsBudgetsBudgetActionActionScpActionDefinition (\<lambda>vs. []) [VNil, VString ''x''] = Inr None \<and>
   expandAwsBudgetsBudgetActionActionSsmActionDefinition (\<lambda>vs. []) [VNil, VString ''x''] = Inr None \<and>
   expandAwsBudgetsBudgetActionActionIamActionDefinition (\<lambda>vs. []) [VNil, VString ''x''] = Inr None"
  using expand_nil_total [of "[VString ''x'']" "\<lambda>vs. []"]
  by simp

text \<open>
  C10. \<open>flattenAwsBudgetsBudgetActionDefinition\<close> returns the empty list exactly for
  nil; for a \<open>Definition\<close> that is not nil it returns one map, which has the key of a
  branch exactly when that branch is not nil, and no other key. A \<open>Definition\<close> whose
  three branches are nil gives a list of one empty map.
\<close>

theorem flattenDefinition_keys:
  "(flattenAwsBudgetsBudgetActionDefinition fss lt = [] \<longleftrightarrow> lt = None) \<and>
   (\<forall>t. lt = Some t \<longrightarrow>
      (\<exists>attrs. flattenAwsBudgetsBudgetActionDefinition fss lt = [attrs] \<and>
         (''ssm_action_definition'' \<in> dom attrs \<longleftrightarrow> SsmActionDefinition t \<noteq> None) \<and>
         (''iam_action_definition'' \<in> dom attrs \<longleftrightarrow> IamActionDefinition t \<noteq> None) \<and>
         (''scp_action_definition'' \<in> dom attrs \<longleftrightarrow> ScpActionDefinition t \<noteq> None) \<and>
         dom attrs \<subseteq> {''ssm_action_definition'', ''iam_action_definition'',
                        ''scp_action_definition''})) \<and>
   flattenAwsBudgetsBudgetActionDefinition fss
     (Some \<lparr>IamActionDefinition = None, ScpActionDefinition = None, SsmActionDefinition = None\<rparr>)
     = [Map.empty]"
  by (auto simp: flattenAwsBudgetsBudgetActionDefinition_def Let_def split: option.splits if_splits)

theorem flattenDefinition_keys_witness:
  "\<exists>attrs.
     flattenAwsBudgetsBudgetActionDefinition (\<lambda>xs. VSet (map VString xs))
       (Some \<lparr>IamActionDefinition = None,
              ScpActionDefinition = Some \<lparr>PolicyId = Some ''p-1'', TargetIds = [''ou-1'']\<rparr>,
              SsmActionDefinition = None\<rparr>) = [attrs] \<and>
     ''scp_action_definition'' \<in> dom attrs \<and>
     ''ssm_action_definition'' \<notin> dom attrs \<and>
     ''iam_action_definition'' \<notin> dom attrs"
  using flattenDefinition_keys [of "\<lambda>xs. VSet (map VString xs)"
      "Some \<lparr>IamActionDefinition = None,
             ScpActionDefinition = Some \<lparr>PolicyId = Some ''p-1'', TargetIds = [''ou-1'']\<rparr>,
             SsmActionDefinition = None\<rparr>"]
  by (elim conjE exE) (simp, blast)

section \<open>Properties of the validation\<close>

lemma MatchString_nullable: "nullable r \<Longrightarrow> MatchString r s"
  by (cases s) auto

text \<open>
  What the two validators accept: \<open>[^:\\]+\<close> matches a string as soon as one of its
  characters is neither the colon nor the backslash, and \<open>(.*[\n\r\t\f\ ]?)*\<close>
  matches every string.
\<close>

lemma match_prefix_nullable: "nullable r \<Longrightarrow> match_prefix r s"
  by (cases s) simp_all

lemma match_prefix_NoMatch_Concat: "\<not> match_prefix (Concat NoMatch r) s"
  by (induction s) simp_all

lemma match_prefix_Plus_NegCharClass:
  "match_prefix (Plus (NegCharClass cs)) s \<longleftrightarrow> (\<exists>c rest. s = c # rest \<and> c \<notin> set cs)"
  by (cases s) (simp_all add: match_prefix_nullable match_prefix_NoMatch_Concat)

lemma MatchString_Plus_NegCharClass:
  "MatchString (Plus (NegCharClass cs)) s \<longleftrightarrow> (\<exists>c \<in> set s. c \<notin> set cs)"
proof (induction s)
  case Nil
  then show ?case by simp
next
  case (Cons a s)
  have "MatchString (Plus (NegCharClass cs)) (a # s) \<longleftrightarrow>
          match_prefix (Plus (NegCharClass cs)) (a # s) \<or> MatchString (Plus (NegCharClass cs)) s"
    by simp
  also have "\<dots> \<longleftrightarrow> a \<notin> set cs \<or> (\<exists>c \<in> set s. c \<notin> set cs)"
    by (simp only: match_prefix_Plus_NegCharClass Cons.IH) simp
  finally show ?case by auto
qed

lemma budget_name_accepted_iff:
  "accepted budget_name_ValidateFunc k v \<longleftrightarrow>
     1 \<le> length v \<and> length v \<le> 100 \<and> (\<exists>c \<in> set v. c \<noteq> CHR '':'' \<and> c \<noteq> CHR 0x5C)"
  by (auto simp: accepted_def budget_name_ValidateFunc_def StringLenBetween_def StringMatch_def
      budget_name_regexp_def MatchString_Plus_NegCharClass Suc_le_eq)

lemma address_accepted_iff:
  "accepted address_ValidateFunc k v \<longleftrightarrow> 1 \<le> length v \<and> length v \<le> 2147483647"
  by (auto simp: accepted_def address_ValidateFunc_def StringLenBetween_def StringMatch_def
      address_regexp_def MatchString_nullable Suc_le_eq)

text \<open>
  C7. The validation of \<open>budget_name\<close> accepts the name \<open>a:b\<close>, which contains the
  colon that its own message says is not allowed: the expression is not anchored, and
  the substring \<open>a\<close> matches it.
\<close>

theorem budget_name_accepts_colon:
  "accepted budget_name_ValidateFunc ''budget_name'' ''a:b'' \<and> CHR '':'' \<in> set ''a:b''"
  by (simp add: accepted_def budget_name_ValidateFunc_def StringLenBetween_def StringMatch_def
      budget_name_regexp_def)

text \<open>
  C8. The validation of a subscriber's \<open>address\<close> accepts an address with a line feed
  in it: the expression matches the empty string, so every string matches it.
\<close>

theorem address_accepts_line_break:
  "accepted address_ValidateFunc ''address'' [CHR ''a'', CHR 0x0A, CHR ''b''] \<and>
   CHR 0x0A \<in> set [CHR ''a'', CHR 0x0A, CHR ''b'']"
  by (simp add: accepted_def address_ValidateFunc_def StringLenBetween_def StringMatch_def
      address_regexp_def)

section \<open>Properties of read, delete and create\<close>

text \<open>
  C2. When the identifier parses: a read whose lookup fails with not-found on a
  resource that is not new clears the identifier and returns no error, and every other
  failure of the lookup is returned wrapped; a delete that fails with the code
  \<open>NotFoundException\<close> returns no error, and every other failure of the vendor call is
  returned wrapped.
\<close>

theorem read_delete_not_found:
  assumes "BudgetActionParseResourceID (d_Id d) = Inr (accountID, actionID, budgetName)"
  shows "(\<forall>e. ActionByAccountIDActionIDAndBudgetName (budgetconn meta) accountID actionID budgetName
                = Inl e \<longrightarrow>
            (if \<not> d_IsNewResource d \<and> NotFound (Some e)
             then resourceAwsBudgetsBudgetActionRead fss d meta = (None, d\<lparr>d_Id := []\<rparr>)
             else resourceAwsBudgetsBudgetActionRead fss d meta =
                    (Some (Errorf (''error reading Budget Action ('' @ d_Id d @ '')'') e), d))) \<and>
         (\<forall>e. DeleteBudgetAction (budgetconn meta)
                 \<lparr>del_AccountId = Some accountID, del_ActionId = Some actionID,
                  del_BudgetName = Some budgetName\<rparr> = Some e \<longrightarrow>
            (if ErrCodeEquals (Some e) ErrCodeNotFoundException
             then resourceAwsBudgetsBudgetActionDelete d meta = None
             else resourceAwsBudgetsBudgetActionDelete d meta =
                    Some (Errorf (''error deleting Budget Action ('' @ d_Id d @ '')'') e)))"
  using assms
  by (simp add: resourceAwsBudgetsBudgetActionRead_def resourceAwsBudgetsBudgetActionDelete_def
      error_of_def SetId_def aws_String_def Let_def)

theorem read_delete_not_found_witness:
  "resourceAwsBudgetsBudgetActionRead example_flattenStringSet example_d example_meta
     = (None, example_d\<lparr>d_Id := []\<rparr>) \<and>
   resourceAwsBudgetsBudgetActionDelete example_d example_meta = None"
proof -
  have p: "BudgetActionParseResourceID (d_Id example_d) = Inr (''123456789012'', ''a1b2'', ''monthly'')"
    by (simp add: example_d_def BudgetActionParseResourceID_def budgetActionResourceIDSeparator_def)
  show ?thesis
    using read_delete_not_found [OF p, of example_meta example_flattenStringSet]
    by (simp add: example_meta_def example_conn_def example_d_def NotFound_def ErrCodeEquals_def
        ErrCodeNotFoundException_def)
qed

text \<open>The attempts that the retrying call makes, and what it returns.\<close>

lemma retry_attempts_pos: "0 < fst (RetryWhenAwsErrCodeEquals t f code)"
  by (induction t arbitrary: f) (auto split: prod.splits)

lemma retry_attempts_bound: "fst (RetryWhenAwsErrCodeEquals t f code) \<le> Suc t"
proof (induction t arbitrary: f)
  case 0
  then show ?case by simp
next
  case (Suc t)
  have "fst (RetryWhenAwsErrCodeEquals t (\<lambda>i. f (Suc i)) code) \<le> Suc t"
    by (rule Suc.IH)
  then show ?case by (auto split: prod.splits)
qed

lemma retry_result_last:
  "snd (RetryWhenAwsErrCodeEquals t f code) = f (fst (RetryWhenAwsErrCodeEquals t f code) - 1)"
proof (induction t arbitrary: f)
  case 0
  then show ?case by simp
next
  case (Suc t)
  show ?case
  proof (cases "ErrCodeEquals (error_of (f 0)) code")
    case True
    obtain n r where nr: "RetryWhenAwsErrCodeEquals t (\<lambda>i. f (Suc i)) code = (n, r)"
      by (cases "RetryWhenAwsErrCodeEquals t (\<lambda>i. f (Suc i)) code")
    have "0 < n" using retry_attempts_pos [of t "\<lambda>i. f (Suc i)" code] nr by simp
    moreover have "r = f (Suc (n - 1))" using Suc.IH [of "\<lambda>i. f (Suc i)"] nr by simp
    ultimately show ?thesis using True nr by simp
  next
    case False
    then show ?thesis by simp
  qed
qed

lemma retry_only_on_code:
  "Suc i < fst (RetryWhenAwsErrCodeEquals t f code) \<Longrightarrow> ErrCodeEquals (error_of (f i)) code"
proof (induction t arbitrary: f i)
  case 0
  then show ?case by simp
next
  case (Suc t)
  show ?case
  proof (cases "ErrCodeEquals (error_of (f 0)) code")
    case True
    obtain n r where nr: "RetryWhenAwsErrCodeEquals t (\<lambda>i. f (Suc i)) code = (n, r)"
      by (cases "RetryWhenAwsErrCodeEquals t (\<lambda>i. f (Suc i)) code")
    show ?thesis
    proof (cases i)
      case 0
      with True show ?thesis by simp
    next
      case (Suc j)
      with Suc.prems True nr have "Suc j < fst (RetryWhenAwsErrCodeEquals t (\<lambda>i. f (Suc i)) code)"
        by simp
      from Suc.IH [OF this] Suc show ?thesis by simp
    qed
  next
    case False
    with Suc.prems show ?thesis by simp
  qed
qed

text \<open>
  C5. In a create whose request is built: no more attempts of \<open>CreateBudgetAction\<close>
  are made than fit in the propagation timeout; every attempt that is followed by
  another one failed with the code \<open>AccessDeniedException\<close>; and an attempt that fails
  with another code is the last one, its error being returned by the create, wrapped
  with context.
\<close>

theorem create_retries_only_access_denied:
  assumes "resourceAwsBudgetsBudgetActionCreate_input ess d meta = Inr (accountID, input)"
  shows "fst (CreateBudgetAction_retried T meta input) \<le> Suc T \<and>
         (\<forall>i. Suc i < fst (CreateBudgetAction_retried T meta input) \<longrightarrow>
            ErrCodeEquals (error_of (CreateBudgetAction (budgetconn meta) i input))
              ErrCodeAccessDeniedException) \<and>
         (\<forall>i e. i < fst (CreateBudgetAction_retried T meta input) \<longrightarrow>
            CreateBudgetAction (budgetconn meta) i input = Inl e \<longrightarrow>
            \<not> ErrCodeEquals (Some e) ErrCodeAccessDeniedException \<longrightarrow>
              fst (CreateBudgetAction_retried T meta input) = Suc i \<and>
              resourceAwsBudgetsBudgetActionCreate T ess fss d meta =
                Inr (Some (Errorf ''error creating Budget Action'' e), d))"
proof (intro conjI allI impI)
  show "fst (CreateBudgetAction_retried T meta input) \<le> Suc T"
    unfolding CreateBudgetAction_retried_def by (rule retry_attempts_bound)
next
  fix i
  assume "Suc i < fst (CreateBudgetAction_retried T meta input)"
  then show "ErrCodeEquals (error_of (CreateBudgetAction (budgetconn meta) i input))
              ErrCodeAccessDeniedException"
    unfolding CreateBudgetAction_retried_def by (rule retry_only_on_code)
next
  fix i e
  assume lt: "i < fst (CreateBudgetAction_retried T meta input)"
    and resp: "CreateBudgetAction (budgetconn meta) i input = Inl e"
    and code: "\<not> ErrCodeEquals (Some e) ErrCodeAccessDeniedException"
  have "\<not> Suc i < fst (CreateBudgetAction_retried T meta input)"
  proof
    assume "Suc i < fst (CreateBudgetAction_retried T meta input)"
    then have "ErrCodeEquals (error_of (CreateBudgetAction (budgetconn meta) i input))
              ErrCodeAccessDeniedException"
      unfolding CreateBudgetAction_retried_def by (rule retry_only_on_code)
    with resp code show False by (simp add: error_of_def)
  qed
  with lt show n: "fst (CreateBudgetAction_retried T meta input) = Suc i" by simp
  have "snd (CreateBudgetAction_retried T meta input) = CreateBudgetAction (budgetconn meta) i input"
    using n retry_result_last [of T "\<lambda>n. CreateBudgetAction (budgetconn meta) n input"
        ErrCodeAccessDeniedException]
    by (simp add: CreateBudgetAction_retried_def)
  with resp assms
  show "resourceAwsBudgetsBudgetActionCreate T ess fss d meta =
          Inr (Some (Errorf ''error creating Budget Action'' e), d)"
    by (simp add: resourceAwsBudgetsBudgetActionCreate_def bind_panic_def)
qed

theorem create_retries_only_access_denied_witness:
  "fst (CreateBudgetAction_retried 5 example_meta
          (snd (projr (resourceAwsBudgetsBudgetActionCreate_input example_expandStringSet
                         example_d example_meta)))) = 3 \<and>
   resourceAwsBudgetsBudgetActionCreate 5 example_expandStringSet example_flattenStringSet
     example_d example_meta =
     Inr (Some (Errorf ''error creating Budget Action''
                  (AwsError ''InternalErrorException'' ''try later'')), example_d)"
proof -
  obtain accountID input where
    h: "resourceAwsBudgetsBudgetActionCreate_input example_expandStringSet example_d example_meta
          = Inr (accountID, input)"
    by (simp add: resourceAwsBudgetsBudgetActionCreate_input_def bind_panic_def Get_string_def
        Get_list_def Get_set_def example_d_def example_Get_def example_definition_def
        example_scp_block_def expandAwsBudgetsBudgetActionSubscriber_def Let_def)
  have n: "fst (CreateBudgetAction_retried 5 example_meta input) = 3"
    by (simp add: CreateBudgetAction_retried_def example_meta_def example_conn_def
        numeral_eq_Suc ErrCodeEquals_def error_of_def ErrCodeAccessDeniedException_def)
  have r: "CreateBudgetAction (budgetconn example_meta) 2 input =
             Inl (AwsError ''InternalErrorException'' ''try later'')"
    by (simp add: example_meta_def example_conn_def)
  have c: "\<not> ErrCodeEquals (Some (AwsError ''InternalErrorException'' ''try later''))
               ErrCodeAccessDeniedException"
    by (simp add: ErrCodeEquals_def ErrCodeAccessDeniedException_def)
  have lt: "2 < fst (CreateBudgetAction_retried 5 example_meta input)"
    by (simp add: n)
  note t = create_retries_only_access_denied [OF h, of 5 example_flattenStringSet,
      THEN conjunct2, THEN conjunct2, rule_format, OF lt r c]
  from t n show ?thesis using h by simp
qed

section \<open>Properties of the definition block\<close>

lemma nested_blocks_cases:
  assumes "nested_blocks m key"
  obtains (absent) "listOk (m key) = None"
    | (empty) "listOk (m key) = Some []"
    | (nil) rest where "listOk (m key) = Some (VNil # rest)"
    | (map) b rest where "listOk (m key) = Some (VMap b # rest)"
proof (cases "listOk (m key)")
  case None
  then show ?thesis by (rule absent)
next
  case (Some v)
  show ?thesis
  proof (cases v)
    case Nil
    with Some show ?thesis by (simp add: empty)
  next
    case (Cons x xs)
    with Some assms have "nil_or_map x"
      by (simp add: nested_blocks_def block_list_def)
    then show ?thesis
      using Some Cons nil map by (cases x) simp_all
  qed
qed

lemma expandDefinition_map:
  assumes "definition_block (VMap m)"
  shows "\<exists>c. expandAwsBudgetsBudgetActionActionDefinition ess (VMap m # rest) = Inr (Some c) \<and>
           (SsmActionDefinition c \<noteq> None) = block_given m ''ssm_action_definition'' \<and>
           (ScpActionDefinition c \<noteq> None) = block_given m ''scp_action_definition'' \<and>
           (IamActionDefinition c \<noteq> None) = block_given m ''iam_action_definition''"
proof -
  from assms have a: "nested_blocks m ''ssm_action_definition''"
    and b: "nested_blocks m ''scp_action_definition''"
    and c: "nested_blocks m ''iam_action_definition''"
    by simp_all
  show ?thesis
    by (rule nested_blocks_cases [OF a]; rule nested_blocks_cases [OF b];
        rule nested_blocks_cases [OF c];
        simp add: bind_panic_def block_given_def Let_def)
qed


lemma is_map_nil_or_map: "is_map x \<Longrightarrow> nil_or_map x"
  by (cases x) simp_all

lemma optional_block_nested:
  assumes "optional_block acc (m key)" and "\<And>v. acc v \<Longrightarrow> is_map v"
  shows "nested_blocks m key"
proof (cases "m key")
  case None
  then show ?thesis by (simp add: nested_blocks_def)
next
  case (Some e)
  show ?thesis
  proof (cases e)
    case (VList v)
    with Some assms(1) have "list_all acc v" by (simp add: optional_block_def)
    then have "list_all nil_or_map v"
      using assms(2) is_map_nil_or_map by (auto simp: list_all_iff)
    with Some VList show ?thesis by (simp add: nested_blocks_def block_list_def)
  qed (use Some in \<open>simp_all add: nested_blocks_def\<close>)
qed

lemma scp_accepts_map: "scp_action_definition_accepts v \<Longrightarrow> is_map v"
  by (cases v) simp_all

lemma ssm_accepts_map: "ssm_action_definition_accepts v \<Longrightarrow> is_map v"
  by (cases v) simp_all

lemma iam_accepts_map: "iam_action_definition_accepts va v \<Longrightarrow> is_map v"
  by (cases v) simp_all

lemma definition_block_accepts_block:
  "definition_block_accepts va x \<Longrightarrow> definition_block x"
  by (cases x)
     (auto intro: optional_block_nested scp_accepts_map ssm_accepts_map iam_accepts_map)

text \<open>
  C6 (as amended). For a \<open>definition\<close> that the schema accepts, expanding returns
  without a panic: nil for a block in which nothing is set, and otherwise a
  \<open>Definition\<close> in which each branch is populated exactly when its nested block is
  given, so that as many branches are populated as nested blocks are given.
\<close>

theorem expandDefinition_branches:
  assumes "definition_schema_accepts validateArn l"
  shows "(l = [VNil] \<and> expandAwsBudgetsBudgetActionActionDefinition ess l = Inr None) \<or>
         (\<exists>m c. l = [VMap m] \<and>
            expandAwsBudgetsBudgetActionActionDefinition ess l = Inr (Some c) \<and>
            (SsmActionDefinition c \<noteq> None) = block_given m ''ssm_action_definition'' \<and>
            (ScpActionDefinition c \<noteq> None) = block_given m ''scp_action_definition'' \<and>
            (IamActionDefinition c \<noteq> None) = block_given m ''iam_action_definition'' \<and>
            populated_branches c = blocks_given m)"
proof -
  from assms obtain x where l: "l = [x]" and x: "definition_block_accepts validateArn x"
    by (cases l) (auto simp: definition_schema_accepts_def)
  show ?thesis
  proof (cases x)
    case VNil
    with l show ?thesis by simp
  next
    case (VMap m)
    from x have "definition_block x" by (rule definition_block_accepts_block)
    with VMap have "definition_block (VMap m)" by (simp only:)
    from expandDefinition_map [OF this, of ess "[]"]
    obtain c where "expandAwsBudgetsBudgetActionActionDefinition ess [VMap m] = Inr (Some c)"
      and "(SsmActionDefinition c \<noteq> None) = block_given m ''ssm_action_definition''"
      and "(ScpActionDefinition c \<noteq> None) = block_given m ''scp_action_definition''"
      and "(IamActionDefinition c \<noteq> None) = block_given m ''iam_action_definition''"
      by blast
    with l VMap show ?thesis
      by (simp add: populated_branches_def blocks_given_def)
  qed (use x in simp_all)
qed

theorem expandDefinition_branches_witness:
  "definition_schema_accepts example_validateArn example_definition \<and>
   (\<exists>m c. example_definition = [VMap m] \<and>
      expandAwsBudgetsBudgetActionActionDefinition example_expandStringSet example_definition
        = Inr (Some c) \<and>
      populated_branches c = 1)"
proof -
  have a: "definition_schema_accepts example_validateArn example_definition"
    by (simp add: definition_schema_accepts_def example_definition_def optional_block_def
        example_scp_block_def string_set_def)
  have b: "\<And>m. example_definition = [VMap m] \<Longrightarrow> blocks_given m = 1"
    by (auto simp: example_definition_def blocks_given_def block_given_def example_scp_block_def)
  from expandDefinition_branches [OF a, of example_expandStringSet] b
  show ?thesis using a by (auto simp: example_definition_def)
qed

text \<open>
  The schema accepts a \<open>definition\<close> with both an \<open>ssm_action_definition\<close> and an
  \<open>scp_action_definition\<close>; its expansion has two populated branches.
\<close>

theorem expandDefinition_two_branches_counterexample:
  "definition_schema_accepts example_validateArn example_definition_two_blocks \<and>
   map_sum id (map_option populated_branches)
     (expandAwsBudgetsBudgetActionActionDefinition example_expandStringSet
        example_definition_two_blocks) = Inr (Some 2)"
  by (simp add: definition_schema_accepts_def example_definition_two_blocks_def optional_block_def
      example_scp_block_def example_ssm_block_def string_set_def ActionSubType_Values_def
      bind_panic_def Let_def populated_branches_def)

section \<open>Properties of the update request\<close>

lemma expandThreshold_blocks:
  assumes "block_list l"
  shows "\<exists>r. expandAwsBudgetsBudgetActionActionThreshold l = Inr r \<and>
           (r \<noteq> None) = (\<exists>m rest. l = VMap m # rest)"
proof (cases l)
  case Nil
  then show ?thesis by simp
next
  case (Cons x xs)
  with assms have "nil_or_map x" by (simp add: block_list_def)
  then show ?thesis using Cons by (cases x) (simp_all add: Let_def)
qed

lemma expandDefinition_blocks:
  assumes "list_all definition_block l"
  shows "\<exists>r. expandAwsBudgetsBudgetActionActionDefinition ess l = Inr r \<and>
           (r \<noteq> None) = (\<exists>m rest. l = VMap m # rest)"
proof (cases l)
  case Nil
  then show ?thesis by simp
next
  case (Cons x xs)
  with assms have x: "definition_block x" by simp
  show ?thesis
  proof (cases x)
    case VNil
    with Cons show ?thesis by simp
  next
    case (VMap m)
    with x have "definition_block (VMap m)" by (simp only:)
    from expandDefinition_map [OF this, of ess xs] Cons VMap show ?thesis by auto
  qed (use x in simp_all)
qed

lemma expandSubscriber_items_maps:
  "list_all is_map l \<Longrightarrow> \<exists>r. expandAwsBudgetsBudgetActionSubscriber_items l items = Inr r"
proof (induction l arbitrary: items)
  case Nil
  then show ?case by simp
next
  case (Cons x xs)
  then show ?case by (cases x) (simp_all add: Let_def)
qed

lemma expandSubscriber_maps:
  "list_all is_map l \<Longrightarrow> \<exists>r. expandAwsBudgetsBudgetActionSubscriber l = Inr r"
  by (simp add: expandAwsBudgetsBudgetActionSubscriber_def expandSubscriber_items_maps)


lemma bind_panic_Inr: "bind_panic (Inr a) f = f a"
  by (simp add: bind_panic_def)

lemma bind_panic_if: "bind_panic (if c then Inr a else Inr b) f = f (if c then a else b)"
  by (simp add: bind_panic_def)

lemma if_Inr: "(if c then Inr a else Inr b) = Inr (if c then a else b)"
  by simp

text \<open>
  C4 (as amended). When the identifier parses and the attributes have the types of the
  schema, the update request is built without a panic; it carries the account ID, the
  action ID and the budget name parsed from the identifier; the fields of unchanged
  attributes stay nil; \<open>approval_model\<close>, \<open>execution_role_arn\<close>,
  \<open>notification_type\<close> and \<open>subscriber\<close> are populated exactly when they changed;
  \<open>action_threshold\<close> and \<open>definition\<close> are populated exactly when they changed
  and their list starts with a block that is not nil.
\<close>

theorem update_input_changed_fields:
  assumes "BudgetActionParseResourceID (d_Id d) = Inr (accountID, actionID, budgetName)"
    and "d_Get d ''action_threshold'' = VList th" and "block_list th"
    and "d_Get d ''approval_model'' = VString am"
    and "d_Get d ''definition'' = VList df" and "list_all definition_block df"
    and "d_Get d ''execution_role_arn'' = VString er"
    and "d_Get d ''notification_type'' = VString nt"
    and "d_Get d ''subscriber'' = VSet sb" and "list_all is_map sb"
  shows "\<exists>input.
           resourceAwsBudgetsBudgetActionUpdate_input ess d accountID actionID budgetName
             = Inr input \<and>
           up_AccountId input = Some accountID \<and>
           up_ActionId input = Some actionID \<and>
           up_BudgetName input = Some budgetName \<and>
           (up_ActionThreshold input \<noteq> None) =
             (d_HasChange d ''action_threshold'' \<and> (\<exists>m rest. th = VMap m # rest)) \<and>
           (up_ApprovalModel input \<noteq> None) = d_HasChange d ''approval_model'' \<and>
           (up_Definition input \<noteq> None) =
             (d_HasChange d ''definition'' \<and> (\<exists>m rest. df = VMap m # rest)) \<and>
           (up_ExecutionRoleArn input \<noteq> None) = d_HasChange d ''execution_role_arn'' \<and>
           (up_NotificationType input \<noteq> None) = d_HasChange d ''notification_type'' \<and>
           (up_Subscribers input \<noteq> None) = d_HasChange d ''subscriber''"
proof -
  from expandThreshold_blocks [OF assms(3)]
  obtain r1 where r1c: "expandAwsBudgetsBudgetActionActionThreshold th = Inr r1 \<and>
    (r1 \<noteq> None) = (\<exists>m rest. th = VMap m # rest)" ..
  from expandDefinition_blocks [OF assms(6)]
  obtain r2 where r2c: "expandAwsBudgetsBudgetActionActionDefinition ess df = Inr r2 \<and>
    (r2 \<noteq> None) = (\<exists>m rest. df = VMap m # rest)" ..
  from expandSubscriber_maps [OF assms(10)]
  obtain r3 where r3: "expandAwsBudgetsBudgetActionSubscriber sb = Inr r3" ..
  note r1 = r1c [THEN conjunct1] and r1' = r1c [THEN conjunct2]
  note r2 = r2c [THEN conjunct1] and r2' = r2c [THEN conjunct2]
  define i0 where "i0 =
    \<lparr>up_AccountId = Some accountID, up_ActionId = Some actionID,
     up_ActionThreshold = None, up_ApprovalModel = None,
     up_BudgetName = Some budgetName, up_Definition = None,
     up_ExecutionRoleArn = None, up_NotificationType = None,
     up_Subscribers = None\<rparr>"
  define i1 where "i1 = (if d_HasChange d ''action_threshold'' then i0\<lparr>up_ActionThreshold := r1\<rparr> else i0)"
  define i2 where "i2 = (if d_HasChange d ''approval_model'' then i1\<lparr>up_ApprovalModel := Some am\<rparr> else i1)"
  define i3 where "i3 = (if d_HasChange d ''definition'' then i2\<lparr>up_Definition := r2\<rparr> else i2)"
  define i4 where "i4 = (if d_HasChange d ''execution_role_arn'' then i3\<lparr>up_ExecutionRoleArn := Some er\<rparr> else i3)"
  define i5 where "i5 = (if d_HasChange d ''notification_type'' then i4\<lparr>up_NotificationType := Some nt\<rparr> else i4)"
  define i6 where "i6 = (if d_HasChange d ''subscriber'' then i5\<lparr>up_Subscribers := Some r3\<rparr> else i5)"
  have e: "resourceAwsBudgetsBudgetActionUpdate_input ess d accountID actionID budgetName = Inr i6"
    unfolding resourceAwsBudgetsBudgetActionUpdate_input_def Let_def Get_string_def Get_list_def
      Get_set_def assms(2,4,5,7,8,9) val.case r1 r2 r3 bind_panic_Inr aws_String_def
      i0_def [symmetric]
    unfolding bind_panic_if i1_def [symmetric]
    unfolding bind_panic_if i2_def [symmetric]
    unfolding bind_panic_if i3_def [symmetric]
    unfolding bind_panic_if i4_def [symmetric]
    unfolding bind_panic_if i5_def [symmetric]
    unfolding if_Inr i6_def [symmetric]
    by (rule refl)
  have f1: "up_AccountId i6 = Some accountID" "up_ActionId i6 = Some actionID"
    "up_BudgetName i6 = Some budgetName"
    by (simp_all add: i6_def i5_def i4_def i3_def i2_def i1_def i0_def)
  have f2: "up_ActionThreshold i6 = (if d_HasChange d ''action_threshold'' then r1 else None)"
    by (simp add: i6_def i5_def i4_def i3_def i2_def i1_def i0_def)
  have f3: "up_ApprovalModel i6 = (if d_HasChange d ''approval_model'' then Some am else None)"
    by (simp add: i6_def i5_def i4_def i3_def i2_def i1_def i0_def)
  have f4: "up_Definition i6 = (if d_HasChange d ''definition'' then r2 else None)"
    by (simp add: i6_def i5_def i4_def i3_def i2_def i1_def i0_def)
  have f5: "up_ExecutionRoleArn i6 = (if d_HasChange d ''execution_role_arn'' then Some er else None)"
    by (simp add: i6_def i5_def i4_def i3_def i2_def i1_def i0_def)
  have f6: "up_NotificationType i6 = (if d_HasChange d ''notification_type'' then Some nt else None)"
    by (simp add: i6_def i5_def i4_def i3_def i2_def i1_def i0_def)
  have f7: "up_Subscribers i6 = (if d_HasChange d ''subscriber'' then Some r3 else None)"
    by (simp add: i6_def i5_def i4_def i3_def i2_def i1_def i0_def)
  show ?thesis
    unfolding e using r1' r2'
    by (intro exI [of _ i6]) (simp add: f1 f2 f3 f4 f5 f6 f7)
qed


theorem update_input_changed_fields_witness:
  "\<exists>input.
     resourceAwsBudgetsBudgetActionUpdate_input example_expandStringSet example_d
       ''123456789012'' ''a1b2'' ''monthly'' = Inr input \<and>
     up_AccountId input = Some ''123456789012'' \<and>
     up_ActionId input = Some ''a1b2'' \<and>
     up_BudgetName input = Some ''monthly'' \<and>
     up_ApprovalModel input \<noteq> None \<and>
     up_ActionThreshold input = None \<and>
     up_Definition input = None \<and>
     up_ExecutionRoleArn input = None \<and>
     up_NotificationType input = None \<and>
     up_Subscribers input = None"
proof -
  have h1: "BudgetActionParseResourceID (d_Id example_d) = Inr (''123456789012'', ''a1b2'', ''monthly'')"
    by (simp add: example_d_def BudgetActionParseResourceID_def budgetActionResourceIDSeparator_def)
  have h2: "d_Get example_d ''action_threshold'' =
      VList [VMap [''action_threshold_type'' \<mapsto> VString ''PERCENTAGE'',
                   ''action_threshold_value'' \<mapsto> VFloat 0x4059000000000000]]"
    by (simp add: example_d_def example_Get_def)
  have h3: "block_list [VMap [''action_threshold_type'' \<mapsto> VString ''PERCENTAGE'',
                   ''action_threshold_value'' \<mapsto> VFloat 0x4059000000000000]]"
    by (simp add: block_list_def)
  have h4: "d_Get example_d ''approval_model'' = VString ''AUTOMATIC''"
    by (simp add: example_d_def example_Get_def)
  have h5: "d_Get example_d ''definition'' = VList example_definition"
    by (simp add: example_d_def example_Get_def)
  have h6: "list_all definition_block example_definition"
    by (simp add: example_definition_def nested_blocks_def block_list_def example_scp_block_def)
  have h7: "d_Get example_d ''execution_role_arn'' = VString ''arn:aws:iam::123456789012:role/r''"
    by (simp add: example_d_def example_Get_def)
  have h8: "d_Get example_d ''notification_type'' = VString ''ACTUAL''"
    by (simp add: example_d_def example_Get_def)
  have h9: "d_Get example_d ''subscriber'' =
      VSet [VMap [''address'' \<mapsto> VString ''ops@example.com'',
                  ''subscription_type'' \<mapsto> VString ''EMAIL'']]"
    by (simp add: example_d_def example_Get_def)
  have h10: "list_all is_map [VMap [''address'' \<mapsto> VString ''ops@example.com'',
                  ''subscription_type'' \<mapsto> VString ''EMAIL'']]"
    by simp
  have c: "d_HasChange example_d = (\<lambda>key. key = ''approval_model'')"
    by (simp add: example_d_def)
  from update_input_changed_fields [OF h1 h2 h3 h4 h5 h6 h7 h8 h9 h10, of example_expandStringSet]
  show ?thesis
    unfolding c by (elim exE conjE) (rule exI, simp)
qed

text \<open>
  The \<open>definition\<close> changed, to a block in which nothing is set: the request's
  \<open>Definition\<close> is nil.
\<close>

theorem update_input_empty_definition_counterexample:
  "BudgetActionParseResourceID (d_Id example_d_empty_definition) =
     Inr (''123456789012'', ''a1b2'', ''monthly'') \<and>
   d_HasChange example_d_empty_definition ''definition'' \<and>
   map_sum id up_Definition
     (resourceAwsBudgetsBudgetActionUpdate_input example_expandStringSet
        example_d_empty_definition ''123456789012'' ''a1b2'' ''monthly'') = Inr None"
  by (simp add: example_d_empty_definition_def example_d_def BudgetActionParseResourceID_def
      budgetActionResourceIDSeparator_def resourceAwsBudgetsBudgetActionUpdate_input_def
      bind_panic_def Get_list_def Get_string_def Get_set_def)

end
